theory Spec2Isabelle
  imports Main
begin

section \<open>Domain types of the workflow engine\<close>

type_synonym LocalBranchName = string
type_synonym RepoRootDir = string
type_synonym StashSize = nat
type_synonym EndTime = nat

text \<open>
  Modelled from the spec: the type \<open>dialog.Response\<close> and its five named values are
  declared outside the source at hand. It is a named value that the resume prompt
  returns; the five known answers are distinct, and other values are representable.
\<close>

datatype Response = Response string

definition ResponseContinue :: Response where "ResponseContinue = Response ''continue''"
definition ResponseDiscard :: Response where "ResponseDiscard = Response ''discard''"
definition ResponseQuit :: Response where "ResponseQuit = Response ''quit''"
definition ResponseSkip :: Response where "ResponseSkip = Response ''skip''"
definition ResponseUndo :: Response where "ResponseUndo = Response ''undo''"

text \<open>
  Errors are values. The constructors named after \<open>messages.*\<close> stand for
  \<open>fmt.Errorf\<close> with that message; \<open>External\<close> is an error handed back by a
  collaborator (file system, git, dialog).
\<close>

datatype error =
    External string
  | RunstateLoadProblem error
  | DialogUnexpectedResponse Response
  | ContinueUnresolvedConflicts
  | BranchAlreadyExistsLocally LocalBranchName
  | BranchAlreadyExistsRemotely LocalBranchName
  | BranchDoesntExist LocalBranchName
  | UncommittedChanges
  | NoBranchNamed string
  | NotAFeatureBranch string
  | ShipOldestAncestorFirst string string

record BranchInfo =
  LocalName :: LocalBranchName
  RemoteName :: string

type_synonym BranchInfos = "BranchInfo list"

record BranchesStatus =
  Branches :: BranchInfos
  Active :: LocalBranchName

type_synonym ConfigSnapshot = "(string \<times> string) list"
type_synonym Lineage = "LocalBranchName \<rightharpoonup> LocalBranchName"
type_synonym Remotes = "string list"

record RepoStatus =
  Conflicts :: bool
  OpenChanges :: bool

record FullConfig =
  MainBranch :: LocalBranchName
  NewBranchPush :: bool
  Offline :: bool
  ConfigLineage :: Lineage

datatype Connector = Connector string

subsection \<open>Opcodes and programs\<close>

text \<open>
  The opcode set is closed; the variants built by the code at hand are listed by name.
  \<open>OtherOpcode\<close> stands for the variants whose declarations live elsewhere (the ones
  the branch-sync planner emits).
\<close>

record CreateTrackingBranch =
  Branch :: LocalBranchName

datatype Opcode =
    OpCreateTrackingBranch CreateTrackingBranch
  | OpCreateBranchExistingParent "LocalBranchName list" LocalBranchName
  | OpSetExistingParent LocalBranchName "LocalBranchName list"
  | OpCheckout LocalBranchName
  | OpStashOpenChanges
  | OpRestoreOpenChanges
  | OpPreserveCheckoutHistory "LocalBranchName list"
  | OtherOpcode string "LocalBranchName list"

type_synonym Program = "Opcode list"

text \<open>\<open>func (self *CreateTrackingBranch) CreateContinueProgram() []shared.Opcode\<close>\<close>

definition CreateContinueProgram :: "CreateTrackingBranch \<Rightarrow> Opcode list" where
  "CreateContinueProgram self = [OpCreateTrackingBranch self]"

subsection \<open>Run state\<close>

record UnfinishedRunStateDetails =
  CanSkip :: bool
  EndBranch :: LocalBranchName
  EndTime :: EndTime

record RunState =
  Command :: string
  DryRun :: bool
  InitialActiveBranch :: LocalBranchName
  RunProgram :: Program
  UnfinishedDetails :: "UnfinishedRunStateDetails option"

text \<open>
  Modelled from the spec: \<open>RunState.IsUnfinished\<close> is declared outside the source at
  hand; "unfinished" holds exactly when \<open>unfinished_details\<close> is present.
\<close>

definition IsUnfinished :: "RunState \<Rightarrow> bool" where
  "IsUnfinished rs = (UnfinishedDetails rs \<noteq> None)"

text \<open>
  The runner gives access to the configuration and to the git backend. What the backend
  answers when asked is part of the input.
\<close>

record ProdRunner =
  RunnerFullConfig :: FullConfig
  Backend_RepoStatus :: "error + RepoStatus"
  Backend_Remotes :: "error + Remotes"
  Backend_PreviouslyCheckedOutBranch :: LocalBranchName

record ExecuteArgs =
  ea_FullConfig :: FullConfig
  ea_Connector :: "Connector option"
  ea_Verbose :: bool
  ea_InitialBranchesSnapshot :: BranchesStatus
  ea_InitialConfigSnapshot :: ConfigSnapshot
  ea_InitialStashSnapshot :: StashSize
  ea_RootDir :: RepoRootDir
  ea_Run :: ProdRunner
  ea_RunState :: RunState

section \<open>Handling an unfinished run state (package validate)\<close>

text \<open>
  The world the handler acts on: the persisted run-state file of every repository root,
  and the log of calls made to collaborators, in the order they are made. A file that
  exists but cannot be read back is \<open>Unreadable\<close>.
\<close>

datatype stored = Unreadable | Stored RunState

datatype call =
    CallLoad RepoRootDir
  | CallAsk string LocalBranchName EndTime bool
  | CallDelete RepoRootDir
  | CallRepoStatus
  | CallExecute ExecuteArgs

record world =
  statefiles :: "RepoRootDir \<rightharpoonup> stored"
  calls :: "call list"

text \<open>
  The collaborators whose code is outside the source at hand are parameters: the resume
  prompt, a possible I/O failure of deleting the file, the two run-state transformers and
  the interpreter, which may change the persisted files in any way.
\<close>

record collaborators =
  AskHowToHandleUnfinishedRunState ::
    "string \<Rightarrow> LocalBranchName \<Rightarrow> EndTime \<Rightarrow> bool \<Rightarrow> error + Response"
  DeleteFailure :: "RepoRootDir \<Rightarrow> error option"
  CreateAbortRunState :: "RunState \<Rightarrow> RunState"
  CreateSkipRunState :: "RunState \<Rightarrow> RunState"
  interpreter_Execute ::
    "ExecuteArgs \<Rightarrow> (RepoRootDir \<rightharpoonup> stored) \<Rightarrow> error option \<times> (RepoRootDir \<rightharpoonup> stored)"

definition logged :: "call \<Rightarrow> world \<Rightarrow> world" where
  "logged c w = w\<lparr>calls := calls w @ [c]\<rparr>"

text \<open>
  Modelled from the spec: \<open>statefile.Load\<close> and \<open>statefile.Delete\<close> are outside the
  source at hand. Load tells "absent" (nil, nil) from a present state, and fails on a
  file it cannot read; Delete removes the file of the root unless the removal fails.
\<close>

definition statefile_Load :: "RepoRootDir \<Rightarrow> world \<Rightarrow> (error + RunState option) \<times> world" where
  "statefile_Load rootDir w =
     ((case statefiles w rootDir of
         None \<Rightarrow> Inr None
       | Some Unreadable \<Rightarrow> Inl (External ''cannot read the runstate file'')
       | Some (Stored rs) \<Rightarrow> Inr (Some rs)),
      logged (CallLoad rootDir) w)"

definition statefile_Delete :: "collaborators \<Rightarrow> RepoRootDir \<Rightarrow> world \<Rightarrow> error option \<times> world" where
  "statefile_Delete c rootDir w =
     (case DeleteFailure c rootDir of
        Some e \<Rightarrow> (Some e, logged (CallDelete rootDir) w)
      | None \<Rightarrow> (None, logged (CallDelete rootDir) (w\<lparr>statefiles := (statefiles w)(rootDir := None)\<rparr>)))"

definition dialog_Ask ::
  "collaborators \<Rightarrow> string \<Rightarrow> LocalBranchName \<Rightarrow> EndTime \<Rightarrow> bool \<Rightarrow> world \<Rightarrow> (error + Response) \<times> world" where
  "dialog_Ask c cmd endBranch endTime canSkip w =
     (AskHowToHandleUnfinishedRunState c cmd endBranch endTime canSkip,
      logged (CallAsk cmd endBranch endTime canSkip) w)"

definition Execute :: "collaborators \<Rightarrow> ExecuteArgs \<Rightarrow> world \<Rightarrow> error option \<times> world" where
  "Execute c ea w =
     (let (err, files) = interpreter_Execute c ea (statefiles w)
      in (err, logged (CallExecute ea) (w\<lparr>statefiles := files\<rparr>)))"

record UnfinishedStateArgs =
  Connector :: "Connector option"
  Verboe :: bool
  Lineage :: Lineage
  InitialBranchesSnapshot :: BranchesStatus
  InitialConfigSnapshot :: ConfigSnapshot
  InitialStashSnapshot :: StashSize
  PushHook :: bool
  RootDir :: RepoRootDir
  Run :: ProdRunner

definition executeArgs :: "UnfinishedStateArgs \<Rightarrow> RunState \<Rightarrow> ExecuteArgs" where
  "executeArgs args rs =
     \<lparr> ea_FullConfig = RunnerFullConfig (Run args),
       ea_Connector = Connector args,
       ea_Verbose = Verboe args,
       ea_InitialBranchesSnapshot = InitialBranchesSnapshot args,
       ea_InitialConfigSnapshot = InitialConfigSnapshot args,
       ea_InitialStashSnapshot = InitialStashSnapshot args,
       ea_RootDir = RootDir args,
       ea_Run = Run args,
       ea_RunState = rs \<rparr>"

definition abortRunstate ::
  "collaborators \<Rightarrow> RunState \<Rightarrow> UnfinishedStateArgs \<Rightarrow> world \<Rightarrow> (bool \<times> error option) \<times> world" where
  "abortRunstate c runState args w =
     (let abortRunState = CreateAbortRunState c runState;
          (err, w') = Execute c (executeArgs args abortRunState) w
      in ((True, err), w'))"

definition continueRunstate ::
  "collaborators \<Rightarrow> RunState \<Rightarrow> UnfinishedStateArgs \<Rightarrow> world \<Rightarrow> (bool \<times> error option) \<times> world" where
  "continueRunstate c runState args w =
     (let w1 = logged CallRepoStatus w in
      case Backend_RepoStatus (Run args) of
        Inl err \<Rightarrow> ((False, Some err), w1)
      | Inr repoStatus \<Rightarrow>
          if Conflicts repoStatus then ((False, Some ContinueUnresolvedConflicts), w1)
          else (let (err, w') = Execute c (executeArgs args runState) w1
                in ((True, err), w')))"

definition discardRunstate ::
  "collaborators \<Rightarrow> RepoRootDir \<Rightarrow> world \<Rightarrow> (bool \<times> error option) \<times> world" where
  "discardRunstate c rootDir w =
     (let (err, w') = statefile_Delete c rootDir w in ((False, err), w'))"

definition skipRunstate ::
  "collaborators \<Rightarrow> RunState \<Rightarrow> UnfinishedStateArgs \<Rightarrow> world \<Rightarrow> (bool \<times> error option) \<times> world" where
  "skipRunstate c runState args w =
     (let skipRunState = CreateSkipRunState c runState;
          (err, w') = Execute c (executeArgs args skipRunState) w
      in ((True, err), w'))"

text \<open>
  \<open>func HandleUnfinishedState(args UnfinishedStateArgs) (quit bool, err error)\<close>.
  The dereference of \<open>UnfinishedDetails\<close> is guarded by \<open>IsUnfinished\<close>; the branch for
  a missing value after that guard is unreachable and returns what the guard returns.
\<close>

definition HandleUnfinishedState ::
  "collaborators \<Rightarrow> UnfinishedStateArgs \<Rightarrow> world \<Rightarrow> (bool \<times> error option) \<times> world" where
  "HandleUnfinishedState c args w =
     (case statefile_Load (RootDir args) w of
        (Inl err, w1) \<Rightarrow> ((False, Some (RunstateLoadProblem err)), w1)
      | (Inr None, w1) \<Rightarrow> ((False, None), w1)
      | (Inr (Some runState), w1) \<Rightarrow>
          if \<not> IsUnfinished runState then ((False, None), w1)
          else (case UnfinishedDetails runState of
                  None \<Rightarrow> ((False, None), w1)
                | Some details \<Rightarrow>
                   (case dialog_Ask c (Command runState) (EndBranch details) (EndTime details)
                           (CanSkip details) w1 of
                      (Inl err, w2) \<Rightarrow> ((False, Some err), w2)
                    | (Inr response, w2) \<Rightarrow>
                        if response = ResponseDiscard then discardRunstate c (RootDir args) w2
                        else if response = ResponseContinue then continueRunstate c runState args w2
                        else if response = ResponseUndo then abortRunstate c runState args w2
                        else if response = ResponseSkip then skipRunstate c runState args w2
                        else if response = ResponseQuit then ((True, None), w2)
                        else ((False, Some (DialogUnexpectedResponse response)), w2))))"

section \<open>The append command\<close>

subsection \<open>Collaborators of the append command\<close>

type_synonym BranchTypes = "LocalBranchName list"

record Branches =
  Branches_All :: BranchInfos
  Branches_Types :: BranchTypes
  Branches_Initial :: LocalBranchName

record OpenRepoResult =
  Runner :: ProdRunner
  orr_RootDir :: RepoRootDir
  orr_ConfigSnapshot :: ConfigSnapshot

record BranchProgramArgs =
  bp_FullConfig :: FullConfig
  bp_BranchInfos :: BranchInfos
  bp_BranchTypes :: BranchTypes
  bp_Remotes :: Remotes
  bp_PushBranch :: bool

record WrapOptions =
  wo_DryRun :: bool
  wo_RunInGitRoot :: bool
  wo_StashOpenChanges :: bool
  wo_PreviousBranchCandidates :: "LocalBranchName list"

text \<open>
  The functions of other packages that the append command calls are parameters.
  \<open>sync.BranchProgram\<close> is given by the opcodes it adds to the program for one branch,
  \<open>Lineage.BranchAndAncestors\<close> by the list it returns, \<open>interpreter.Execute\<close> by the
  error it returns.
\<close>

record appendCollaborators =
  OpenRepo :: "error + OpenRepoResult"
  LoadBranches ::
    "OpenRepoResult \<Rightarrow> Branches \<times> BranchesStatus \<times> StashSize \<times> bool \<times> error option"
  EnsureKnownBranchAncestry ::
    "LocalBranchName \<Rightarrow> FullConfig \<Rightarrow> BranchInfos \<Rightarrow> BranchTypes \<Rightarrow> LocalBranchName
       \<Rightarrow> error + (BranchTypes \<times> Lineage)"
  BranchAndAncestors :: "Lineage \<Rightarrow> LocalBranchName \<Rightarrow> LocalBranchName list"
  BranchProgram :: "BranchInfo \<Rightarrow> BranchProgramArgs \<Rightarrow> Program"
  Wrap :: "Program \<Rightarrow> WrapOptions \<Rightarrow> Program"
  append_Execute :: "ExecuteArgs \<Rightarrow> error option"

text \<open>
  Modelled from the spec: the failure collector, the queries on branch infos, on remotes
  and on the configuration are declared outside the source at hand. The collector keeps
  the first failure it is given. A branch exists locally when an info carries its name; it
  has a matching tracking branch when an info carries its name at origin. Selecting
  branches keeps the order of the requested names and fails on a name without info.
\<close>

record FailureCollector =
  Err :: "error option"

definition Check :: "FailureCollector \<Rightarrow> error option \<Rightarrow> FailureCollector" where
  "Check fc err = (if Err fc = None then fc\<lparr>Err := err\<rparr> else fc)"

definition Fail :: "FailureCollector \<Rightarrow> error \<Rightarrow> FailureCollector" where
  "Fail fc e = Check fc (Some e)"

definition collect :: "FailureCollector \<Rightarrow> 'a \<Rightarrow> error + 'a \<Rightarrow> 'a \<times> FailureCollector" where
  "collect fc zero r = (case r of Inl e \<Rightarrow> (zero, Check fc (Some e)) | Inr v \<Rightarrow> (v, Check fc None))"

definition HasLocalBranch :: "BranchInfos \<Rightarrow> LocalBranchName \<Rightarrow> bool" where
  "HasLocalBranch infos branch = (branch \<in> set (map LocalName infos))"

definition TrackingBranch :: "LocalBranchName \<Rightarrow> string" where
  "TrackingBranch branch = ''origin/'' @ branch"

definition HasMatchingTrackingBranchFor :: "BranchInfos \<Rightarrow> LocalBranchName \<Rightarrow> bool" where
  "HasMatchingTrackingBranchFor infos branch = (TrackingBranch branch \<in> set (map RemoteName infos))"

fun Select :: "BranchInfos \<Rightarrow> LocalBranchName list \<Rightarrow> error + BranchInfos" where
  "Select infos [] = Inr []"
| "Select infos (name # names) =
     (case find (\<lambda>bi. LocalName bi = name) infos of
        None \<Rightarrow> Inl (BranchDoesntExist name)
      | Some bi \<Rightarrow> (case Select infos names of Inl e \<Rightarrow> Inl e | Inr rest \<Rightarrow> Inr (bi # rest)))"

definition HasOrigin :: "Remotes \<Rightarrow> bool" where
  "HasOrigin rs = (''origin'' \<in> set rs)"

definition ShouldNewBranchPush :: "FullConfig \<Rightarrow> bool" where
  "ShouldNewBranchPush config = NewBranchPush config"

definition IsOnline :: "FullConfig \<Rightarrow> bool" where
  "IsOnline config = (\<not> Offline config)"

text \<open>
  Modelled from the spec: \<open>cmdhelpers.Wrap\<close> is outside the source at hand. With
  \<open>stash_open_changes\<close> the stash comes first; the return to the previously checked-out
  branch comes last, and the restore of the stashed changes after it.
\<close>

definition Wrap_spec :: "Program \<Rightarrow> WrapOptions \<Rightarrow> Program" where
  "Wrap_spec prog options =
     (if wo_StashOpenChanges options then [OpStashOpenChanges] else [])
     @ prog
     @ [OpPreserveCheckoutHistory (wo_PreviousBranchCandidates options)]
     @ (if wo_StashOpenChanges options then [OpRestoreOpenChanges] else [])"

subsection \<open>The command\<close>

record appendConfig =
  ac_FullConfig :: FullConfig
  branches :: Branches
  branchesToSync :: BranchInfos
  dryRun :: bool
  hasOpenChanges :: bool
  remotes :: Remotes
  newBranchParentCandidates :: "LocalBranchName list"
  parentBranch :: LocalBranchName
  previousBranch :: LocalBranchName
  targetBranch :: LocalBranchName

text \<open>
  \<open>func determineAppendConfig(targetBranch, repo, dryRun, verbose)\<close>. The lineage that
  \<open>EnsureKnownBranchAncestry\<close> returns is stored in the runner's configuration, to which
  the resulting config points.
\<close>

definition determineAppendConfig ::
  "appendCollaborators \<Rightarrow> LocalBranchName \<Rightarrow> OpenRepoResult \<Rightarrow> bool \<Rightarrow> bool
     \<Rightarrow> appendConfig option \<times> BranchesStatus \<times> StashSize \<times> bool \<times> error option" where
  "determineAppendConfig c target repo dry verbose =
     (let fc = \<lparr>Err = None\<rparr> in
      case LoadBranches c repo of
        (loaded, branchesSnapshot, stashSnapshot, exit, err) \<Rightarrow>
      if err \<noteq> None \<or> exit then (None, branchesSnapshot, stashSnapshot, exit, err)
      else
        let previous = Backend_PreviouslyCheckedOutBranch (Runner repo);
            (remotes', fc) = collect fc [] (Backend_Remotes (Runner repo));
            (repoStatus, fc) =
               collect fc \<lparr>Conflicts = False, OpenChanges = False\<rparr> (Backend_RepoStatus (Runner repo))
        in
        if Err fc \<noteq> None then (None, branchesSnapshot, stashSnapshot, False, Err fc)
        else
          let fc = (if HasLocalBranch (Branches_All loaded) target
                    then Fail fc (BranchAlreadyExistsLocally target) else fc);
              fc = (if HasMatchingTrackingBranchFor (Branches_All loaded) target
                    then Fail fc (BranchAlreadyExistsRemotely target) else fc)
          in
          case EnsureKnownBranchAncestry c (Branches_Initial loaded) (RunnerFullConfig (Runner repo))
                 (Branches_All loaded) (Branches_Types loaded)
                 (MainBranch (RunnerFullConfig (Runner repo))) of
            Inl e \<Rightarrow> (None, branchesSnapshot, stashSnapshot, False, Some e)
          | Inr (types, lineage) \<Rightarrow>
              let loaded = loaded\<lparr>Branches_Types := types\<rparr>;
                  fullConfig = (RunnerFullConfig (Runner repo))\<lparr>ConfigLineage := lineage\<rparr>;
                  branchNamesToSync = BranchAndAncestors c lineage (Branches_Initial loaded);
                  (toSync, fc) = collect fc [] (Select (Branches_All loaded) branchNamesToSync);
                  initialAndAncestors = BranchAndAncestors c lineage (Branches_Initial loaded);
                  initialAndAncestors = rev initialAndAncestors
              in (Some \<lparr> ac_FullConfig = fullConfig,
                          branches = loaded,
                          branchesToSync = toSync,
                          dryRun = dry,
                          hasOpenChanges = OpenChanges repoStatus,
                          remotes = remotes',
                          newBranchParentCandidates = initialAndAncestors,
                          parentBranch = Branches_Initial loaded,
                          previousBranch = previous,
                          targetBranch = target \<rparr>,
                  branchesSnapshot, stashSnapshot, False, Err fc))"

text \<open>\<open>func appendProgram(config *appendConfig) program.Program\<close>\<close>

definition appendProgram :: "appendCollaborators \<Rightarrow> appendConfig \<Rightarrow> Program" where
  "appendProgram c config =
     (let prog = [];
          prog = foldl (\<lambda>prog branch. prog @ BranchProgram c branch
                          \<lparr> bp_FullConfig = ac_FullConfig config,
                            bp_BranchInfos = Branches_All (branches config),
                            bp_BranchTypes = Branches_Types (branches config),
                            bp_Remotes = remotes config,
                            bp_PushBranch = True \<rparr>)
                   prog (branchesToSync config);
          prog = prog @ [OpCreateBranchExistingParent (newBranchParentCandidates config)
                           (targetBranch config)];
          prog = prog @ [OpSetExistingParent (targetBranch config)
                           (newBranchParentCandidates config)];
          prog = prog @ [OpCheckout (targetBranch config)];
          prog = (if HasOrigin (remotes config) \<and> ShouldNewBranchPush (ac_FullConfig config)
                     \<and> IsOnline (ac_FullConfig config)
                  then prog @ [OpCreateTrackingBranch \<lparr>Branch = targetBranch config\<rparr>]
                  else prog)
      in Wrap c prog
           \<lparr> wo_DryRun = dryRun config,
             wo_RunInGitRoot = True,
             wo_StashOpenChanges = hasOpenChanges config,
             wo_PreviousBranchCandidates =
               [Branches_Initial (branches config), previousBranch config] \<rparr>)"

text \<open>
  \<open>func executeAppend(arg string, dryRun, verbose bool) error\<close>. The result is the
  returned error together with the arguments handed to the interpreter, when it was
  invoked. A missing config without error or exit does not occur (see
  \<open>determineAppendConfig\<close>); the model returns there.
\<close>

definition executeAppend ::
  "appendCollaborators \<Rightarrow> string \<Rightarrow> bool \<Rightarrow> bool \<Rightarrow> error option \<times> ExecuteArgs option" where
  "executeAppend c arg dry verbose =
     (case OpenRepo c of
        Inl err \<Rightarrow> (Some err, None)
      | Inr repo \<Rightarrow>
          (case determineAppendConfig c arg repo dry verbose of
             (config, initialBranchesSnapshot, initialStashSnapshot, exit, err) \<Rightarrow>
               if err \<noteq> None \<or> exit then (err, None)
               else (case config of
                       None \<Rightarrow> (err, None)
                     | Some config \<Rightarrow>
                         let runState = \<lparr> Command = ''append'',
                                          DryRun = dry,
                                          InitialActiveBranch = Active initialBranchesSnapshot,
                                          RunProgram = appendProgram c config,
                                          UnfinishedDetails = None \<rparr>;
                             ea = \<lparr> ea_FullConfig = ac_FullConfig config,
                                    ea_Connector = None,
                                    ea_Verbose = verbose,
                                    ea_InitialBranchesSnapshot = initialBranchesSnapshot,
                                    ea_InitialConfigSnapshot = orr_ConfigSnapshot repo,
                                    ea_InitialStashSnapshot = initialStashSnapshot,
                                    ea_RootDir = orr_RootDir repo,
                                    ea_Run = (Runner repo)\<lparr>RunnerFullConfig := ac_FullConfig config\<rparr>,
                                    ea_RunState = runState \<rparr>
                         in (append_Execute c ea, Some ea))))"

section \<open>The ship command\<close>

text \<open>
  The ship command is written against the step lists of the engine. A run of the command
  ends by returning (\<open>Done\<close>), by \<open>cli.Exit\<close> with an error, or by a runtime panic
  of an out-of-range slice expression or index.
\<close>

datatype panic =
    SliceBoundsOutOfRange nat nat
  | IndexOutOfRange nat nat

datatype 'a proc = Done 'a | Exit error | Panic panic

datatype Step =
    EnsureHasShippableChangesStep string
  | CheckoutBranchStep string
  | PushBranchStep string bool
  | DriverMergePullRequestStep string int string string
  | PullBranchStep
  | SquashMergeBranchStep string string
  | DeleteOriginBranchStep string bool
  | DeleteLocalBranchStep string
  | DeleteParentBranchStep string
  | SetParentBranchStep string string
  | OtherStep string "string list"

type_synonym StepList = "Step list"

record PullRequestInfo =
  CanMergeWithAPI :: bool
  DefaultCommitMessage :: string
  PullRequestNumber :: int


record Driver =
  LoadPullRequestInfo :: "string \<Rightarrow> string \<Rightarrow> error + PullRequestInfo"

record ShipWrapOptions =
  sw_RunInGitRoot :: bool
  sw_StashOpenChanges :: bool

record ShipRunState =
  ship_Command :: string
  ship_StepList :: StepList


text \<open>
  The repository handle: what the git runners, the configuration, the parent dialog and
  the functions of other packages answer when the ship command calls them.
\<close>

record ProdRepo =
  hosting_NewDriver :: "error + Driver option"
  Silent_CurrentBranch :: "error + string"
  Silent_HasOpenChanges :: "error + bool"
  Silent_HasOrigin :: "error + bool"
  Silent_HasLocalOrOriginBranch :: "string \<Rightarrow> error + bool"
  Silent_HasTrackingBranch :: "string \<Rightarrow> error + bool"
  Logging_Fetch :: "error option"
  Config_IsOffline :: "error + bool"
  Config_IsFeatureBranch :: "string \<Rightarrow> bool"
  Config_IsMainBranch :: "string \<Rightarrow> bool"
  Config_IsPerennialBranch :: "string \<Rightarrow> bool"
  Config_ParentBranch :: "string \<Rightarrow> string"
  Config_AncestorBranches :: "string \<Rightarrow> string list"
  Config_ChildBranches :: "string \<Rightarrow> string list"
  Config_ShouldShipDeleteOriginBranch :: "error + bool"
  EnsureKnowsParentBranches :: "string list \<Rightarrow> error option"
  syncBranchSteps :: "string \<Rightarrow> bool \<Rightarrow> error + StepList"
  StepList_Wrap :: "StepList \<Rightarrow> ShipWrapOptions \<Rightarrow> StepList \<times> error option"
  runstate_Execute :: "ShipRunState \<Rightarrow> Driver option \<Rightarrow> error option"


text \<open>\<open>strings.Join\<close>\<close>

fun Join :: "string list \<Rightarrow> string \<Rightarrow> string" where
  "Join [] sep = []"
| "Join [x] sep = x"
| "Join (x # y # ys) sep = x @ sep @ Join (y # ys) sep"

text \<open>
  \<open>func ensureParentBranchIsMainOrPerennialBranch(branch string, repo *git.ProdRepo)\<close>.
  The slice expression \<open>ancestors[1:]\<close> panics on an empty list, the index
  \<open>[0]\<close> on an empty rest.
\<close>

definition ensureParentBranchIsMainOrPerennialBranch :: "string \<Rightarrow> ProdRepo \<Rightarrow> unit proc" where
  "ensureParentBranchIsMainOrPerennialBranch branch repo =
     (let parent = Config_ParentBranch repo branch in
      if \<not> Config_IsMainBranch repo parent \<and> \<not> Config_IsPerennialBranch repo parent then
        (let ancestors = Config_AncestorBranches repo branch in
         if length ancestors < 1 then Panic (SliceBoundsOutOfRange 1 (length ancestors))
         else
           let ancestorsWithoutMainOrPerennial = drop 1 ancestors in
           if length ancestorsWithoutMainOrPerennial \<le> 0
           then Panic (IndexOutOfRange 0 (length ancestorsWithoutMainOrPerennial))
           else
             let oldestAncestor = ancestorsWithoutMainOrPerennial ! 0 in
             Exit (ShipOldestAncestorFirst (Join ancestorsWithoutMainOrPerennial '', '')
                     oldestAncestor))
      else Done ())"








section \<open>Sample inputs\<close>

subsection \<open>A halted sync in the repository at /repo\<close>

definition sample_details :: UnfinishedRunStateDetails where
  "sample_details = \<lparr>CanSkip = True, EndBranch = ''feature'', EndTime = 7\<rparr>"

definition sample_runstate :: "UnfinishedRunStateDetails option \<Rightarrow> RunState" where
  "sample_runstate d =
     \<lparr>Command = ''sync'', DryRun = False, InitialActiveBranch = ''feature'',
      RunProgram = [OpCheckout ''main''], UnfinishedDetails = d\<rparr>"

definition sample_world :: "RunState \<Rightarrow> world" where
  "sample_world rs = \<lparr>statefiles = [''/repo'' \<mapsto> Stored rs], calls = []\<rparr>"

definition finish_all :: "ExecuteArgs \<Rightarrow> (RepoRootDir \<rightharpoonup> stored) \<Rightarrow> error option \<times> (RepoRootDir \<rightharpoonup> stored)" where
  "finish_all ea files = (None, files(ea_RootDir ea := None))"

definition sample_collaborators :: "Response \<Rightarrow> collaborators" where
  "sample_collaborators answer =
     \<lparr>AskHowToHandleUnfinishedRunState = (\<lambda>cmd b t s. Inr answer),
      DeleteFailure = (\<lambda>r. None),
      CreateAbortRunState = (\<lambda>rs. rs\<lparr>RunProgram := []\<rparr>),
      CreateSkipRunState = (\<lambda>rs. rs\<lparr>RunProgram := tl (RunProgram rs)\<rparr>),
      interpreter_Execute = finish_all\<rparr>"

definition sample_config :: FullConfig where
  "sample_config = \<lparr>MainBranch = ''main'', NewBranchPush = True, Offline = False,
                    ConfigLineage = [''feature'' \<mapsto> ''main'']\<rparr>"

definition sample_args :: "bool \<Rightarrow> UnfinishedStateArgs" where
  "sample_args conflicts =
     \<lparr>Connector = None, Verboe = False, Lineage = [''feature'' \<mapsto> ''main''],
      InitialBranchesSnapshot = \<lparr>Branches = [], Active = ''feature''\<rparr>,
      InitialConfigSnapshot = [], InitialStashSnapshot = 0, PushHook = True,
      RootDir = ''/repo'',
      Run = \<lparr>RunnerFullConfig = sample_config,
             Backend_RepoStatus = Inr \<lparr>Conflicts = conflicts, OpenChanges = False\<rparr>,
             Backend_Remotes = Inr [''origin''],
             Backend_PreviouslyCheckedOutBranch = ''main''\<rparr>\<rparr>"

definition sample_args_without_status :: UnfinishedStateArgs where
  "sample_args_without_status =
     (sample_args False)
       \<lparr>Run := (Run (sample_args False))
                 \<lparr>Backend_RepoStatus := Inl (External ''git status failed'')\<rparr>\<rparr>"

subsection \<open>Appending the branch child to the branch feature, whose parent is main\<close>

definition sample_runner :: "bool \<Rightarrow> ProdRunner" where
  "sample_runner openChanges =
     \<lparr>RunnerFullConfig = sample_config,
      Backend_RepoStatus = Inr \<lparr>Conflicts = False, OpenChanges = openChanges\<rparr>,
      Backend_Remotes = Inr [''origin''],
      Backend_PreviouslyCheckedOutBranch = ''main''\<rparr>"

definition sample_repo :: "bool \<Rightarrow> OpenRepoResult" where
  "sample_repo openChanges =
     \<lparr>Runner = sample_runner openChanges, orr_RootDir = ''/repo'', orr_ConfigSnapshot = []\<rparr>"

definition sample_infos :: BranchInfos where
  "sample_infos = [\<lparr>LocalName = ''main'', RemoteName = ''origin/main''\<rparr>,
                   \<lparr>LocalName = ''feature'', RemoteName = ''origin/feature''\<rparr>]"

definition sample_loaded ::
  "OpenRepoResult \<Rightarrow> Branches \<times> BranchesStatus \<times> StashSize \<times> bool \<times> error option" where
  "sample_loaded repo =
     (\<lparr>Branches_All = sample_infos, Branches_Types = [''main''], Branches_Initial = ''feature''\<rparr>,
      \<lparr>Branches = sample_infos, Active = ''feature''\<rparr>, 0, False, None)"

definition known_ancestry ::
  "LocalBranchName \<Rightarrow> FullConfig \<Rightarrow> BranchInfos \<Rightarrow> BranchTypes \<Rightarrow> LocalBranchName
     \<Rightarrow> error + (BranchTypes \<times> Lineage)" where
  "known_ancestry branch config infos types main = Inr (types, ConfigLineage config)"

definition parent_then_branch :: "Lineage \<Rightarrow> LocalBranchName \<Rightarrow> LocalBranchName list" where
  "parent_then_branch lineage branch =
     (case lineage branch of None \<Rightarrow> [branch] | Some parent \<Rightarrow> [parent, branch])"

definition sync_marker :: "BranchInfo \<Rightarrow> BranchProgramArgs \<Rightarrow> Program" where
  "sync_marker branch args = [OtherOpcode ''sync'' [LocalName branch]]"

definition succeed :: "ExecuteArgs \<Rightarrow> error option" where
  "succeed ea = None"

definition sample_append :: "bool \<Rightarrow> appendCollaborators" where
  "sample_append openChanges =
     \<lparr>OpenRepo = Inr (sample_repo openChanges),
      LoadBranches = sample_loaded,
      EnsureKnownBranchAncestry = known_ancestry,
      BranchAndAncestors = parent_then_branch,
      BranchProgram = sync_marker,
      Wrap = Wrap_spec,
      append_Execute = succeed\<rparr>"

definition bare_sequence :: Program where
  "bare_sequence =
     [OtherOpcode ''sync'' [''main''], OtherOpcode ''sync'' [''feature''],
      OpCreateBranchExistingParent [''feature'', ''main''] ''child'',
      OpSetExistingParent ''child'' [''feature'', ''main''],
      OpCheckout ''child'',
      OpCreateTrackingBranch \<lparr>Branch = ''child''\<rparr>]"

definition handed_program :: "error option \<times> ExecuteArgs option \<Rightarrow> Program option" where
  "handed_program outcome = map_option (\<lambda>ea. RunProgram (ea_RunState ea)) (snd outcome)"

subsection \<open>Shipping in a repository with origin, online, without a hosting driver\<close>

definition no_parent_question :: "string list \<Rightarrow> error option" where
  "no_parent_question bs = None"

definition sync_step :: "string \<Rightarrow> bool \<Rightarrow> error + StepList" where
  "sync_step b pushBranch = Inr [OtherStep ''sync'' [b]]"

definition wrap_nothing :: "StepList \<Rightarrow> ShipWrapOptions \<Rightarrow> StepList \<times> error option" where
  "wrap_nothing stepList options = (stepList, None)"

definition run_all :: "ShipRunState \<Rightarrow> Driver option \<Rightarrow> error option" where
  "run_all runState driver = None"

definition is_main :: "string \<Rightarrow> bool" where
  "is_main b = (b = ''main'')"

definition parent_of :: "string \<Rightarrow> string" where
  "parent_of b = (if b = ''child'' then ''feature'' else ''main'')"

definition always :: "'b \<Rightarrow> 'a \<Rightarrow> 'b" where
  "always v x = v"

definition sample_ship_repo :: "string \<Rightarrow> bool \<Rightarrow> string list \<Rightarrow> ProdRepo" where
  "sample_ship_repo current feature ancestors =
     \<lparr> hosting_NewDriver = Inr None,
       Silent_CurrentBranch = Inr current,
       Silent_HasOpenChanges = Inr False,
       Silent_HasOrigin = Inr True,
       Silent_HasLocalOrOriginBranch = always (Inr True),
       Silent_HasTrackingBranch = always (Inr True),
       Logging_Fetch = None,
       Config_IsOffline = Inr False,
       Config_IsFeatureBranch = always feature,
       Config_IsMainBranch = is_main,
       Config_IsPerennialBranch = always False,
       Config_ParentBranch = parent_of,
       Config_AncestorBranches = always ancestors,
       Config_ChildBranches = always [],
       Config_ShouldShipDeleteOriginBranch = Inr True,
       EnsureKnowsParentBranches = no_parent_question,
       syncBranchSteps = sync_step,
       StepList_Wrap = wrap_nothing,
       runstate_Execute = run_all \<rparr>"




section \<open>Theorems\<close>

subsection \<open>The create-tracking-branch opcode\<close>

text \<open>
  C8: the continuation of a create-tracking-branch opcode is the singleton sequence holding
  that same opcode: resuming re-runs the opcode itself, and nothing else is inserted.
\<close>

theorem C8_continue_program_is_itself:
  "CreateContinueProgram self = [OpCreateTrackingBranch self]
   \<and> length (CreateContinueProgram self) = 1
   \<and> CreateContinueProgram \<lparr>Branch = b\<rparr> = [OpCreateTrackingBranch \<lparr>Branch = b\<rparr>]"
  by (simp add: CreateContinueProgram_def)

subsection \<open>The resume handler\<close>

lemmas handler_defs =
  HandleUnfinishedState_def statefile_Load_def dialog_Ask_def logged_def IsUnfinished_def

lemmas response_names =
  ResponseContinue_def ResponseSkip_def ResponseUndo_def ResponseDiscard_def ResponseQuit_def

lemmas sample_defs =
  sample_world_def sample_args_def sample_runstate_def sample_details_def
  sample_collaborators_def sample_config_def finish_all_def

text \<open>
  C4: when an unfinished run state is loaded and the resume prompt answers with a value
  that is none of Continue, Skip, Undo, Discard and Quit, the handler returns the
  unexpected-response error with quit = false; the only calls it made are the load and
  the prompt (the interpreter is not invoked, the file is neither deleted nor written),
  so the persisted files are the ones it started with.
\<close>

theorem C4_unexpected_response:
  assumes "statefiles w (RootDir args) = Some (Stored rs)"
      and "UnfinishedDetails rs = Some d"
      and "AskHowToHandleUnfinishedRunState c (Command rs) (EndBranch d) (EndTime d) (CanSkip d)
             = Inr response"
      and "response \<notin> {ResponseContinue, ResponseSkip, ResponseUndo, ResponseDiscard, ResponseQuit}"
  shows "HandleUnfinishedState c args w =
           ((False, Some (DialogUnexpectedResponse response)),
            w\<lparr>calls := calls w @ [CallLoad (RootDir args),
                  CallAsk (Command rs) (EndBranch d) (EndTime d) (CanSkip d)]\<rparr>)"
  using assms by (simp add: handler_defs)

theorem C4_witness:
  "statefiles (sample_world (sample_runstate (Some sample_details))) (RootDir (sample_args False))
     = Some (Stored (sample_runstate (Some sample_details)))
   \<and> Response ''retry'' \<notin> {ResponseContinue, ResponseSkip, ResponseUndo, ResponseDiscard, ResponseQuit}
   \<and> HandleUnfinishedState (sample_collaborators (Response ''retry'')) (sample_args False)
       (sample_world (sample_runstate (Some sample_details))) =
     ((False, Some (DialogUnexpectedResponse (Response ''retry''))),
      \<lparr>statefiles = [''/repo'' \<mapsto> Stored (sample_runstate (Some sample_details))],
       calls = [CallLoad ''/repo'', CallAsk ''sync'' ''feature'' 7 True]\<rparr>)"
  using C4_unexpected_response [of "sample_world (sample_runstate (Some sample_details))"
      "sample_args False" "sample_runstate (Some sample_details)" sample_details
      "sample_collaborators (Response ''retry'')" "Response ''retry''"]
  by (simp add: sample_defs response_names)

text \<open>
  C9: when the user answers Quit, the handler returns quit = true and no error; the only
  calls it made are the load and the prompt, the persisted files are unchanged, and
  running the handler again on the resulting world asks the same prompt again.
\<close>

theorem C9_quit_leaves_state:
  assumes "statefiles w (RootDir args) = Some (Stored rs)"
      and "UnfinishedDetails rs = Some d"
      and "AskHowToHandleUnfinishedRunState c (Command rs) (EndBranch d) (EndTime d) (CanSkip d)
             = Inr ResponseQuit"
      and "asked = [CallLoad (RootDir args),
                    CallAsk (Command rs) (EndBranch d) (EndTime d) (CanSkip d)]"
  shows "HandleUnfinishedState c args w = ((True, None), w\<lparr>calls := calls w @ asked\<rparr>)
       \<and> HandleUnfinishedState c args (w\<lparr>calls := calls w @ asked\<rparr>) =
           ((True, None), w\<lparr>calls := calls w @ asked @ asked\<rparr>)"
  using assms by (simp add: handler_defs response_names)

theorem C9_witness:
  "statefiles (sample_world (sample_runstate (Some sample_details))) (RootDir (sample_args False))
     = Some (Stored (sample_runstate (Some sample_details)))
   \<and> HandleUnfinishedState (sample_collaborators ResponseQuit) (sample_args False)
       (sample_world (sample_runstate (Some sample_details))) =
     ((True, None),
      \<lparr>statefiles = [''/repo'' \<mapsto> Stored (sample_runstate (Some sample_details))],
       calls = [CallLoad ''/repo'', CallAsk ''sync'' ''feature'' 7 True]\<rparr>)"
  using C9_quit_leaves_state [of "sample_world (sample_runstate (Some sample_details))"
      "sample_args False" "sample_runstate (Some sample_details)" sample_details
      "sample_collaborators ResponseQuit"
      "[CallLoad ''/repo'', CallAsk ''sync'' ''feature'' 7 True]"]
  by (simp add: sample_defs)

text \<open>
  C6: when the user answers Discard, the handler calls the deletion of the persisted run
  state of the repository root and returns its outcome with quit = false; the calls it
  made are the load, the prompt and the deletion, so the interpreter is not invoked with
  the pending, the skip or the undo program. When the deletion does not fail, no file is
  left for the root.
\<close>

theorem C6_discard_deletes_state:
  assumes "statefiles w (RootDir args) = Some (Stored rs)"
      and "UnfinishedDetails rs = Some d"
      and "AskHowToHandleUnfinishedRunState c (Command rs) (EndBranch d) (EndTime d) (CanSkip d)
             = Inr ResponseDiscard"
  shows "HandleUnfinishedState c args w =
           ((False, DeleteFailure c (RootDir args)),
            w\<lparr>statefiles :=
                 (if DeleteFailure c (RootDir args) = None
                  then (statefiles w)(RootDir args := None) else statefiles w),
              calls := calls w @ [CallLoad (RootDir args),
                 CallAsk (Command rs) (EndBranch d) (EndTime d) (CanSkip d),
                 CallDelete (RootDir args)]\<rparr>)"
  using assms
  by (cases "DeleteFailure c (RootDir args)")
     (simp_all add: handler_defs discardRunstate_def statefile_Delete_def)

theorem C6_witness:
  "statefiles (sample_world (sample_runstate (Some sample_details))) (RootDir (sample_args False))
     = Some (Stored (sample_runstate (Some sample_details)))
   \<and> HandleUnfinishedState (sample_collaborators ResponseDiscard) (sample_args False)
       (sample_world (sample_runstate (Some sample_details))) =
     ((False, None),
      \<lparr>statefiles = Map.empty,
       calls = [CallLoad ''/repo'', CallAsk ''sync'' ''feature'' 7 True, CallDelete ''/repo'']\<rparr>)"
  using C6_discard_deletes_state [of "sample_world (sample_runstate (Some sample_details))"
      "sample_args False" "sample_runstate (Some sample_details)" sample_details
      "sample_collaborators ResponseDiscard"]
  by (simp add: sample_defs)

text \<open>
  C7: when the user answers Continue, the handler reads the repository status first. When
  the status reports unresolved conflicts, it returns the unresolved-conflicts error with
  quit = false, having only loaded, asked and read the status: the interpreter is not
  invoked and the persisted files are unchanged. The same holds, with the error of the
  status call, when that call fails. The interpreter is invoked with the persisted run
  state exactly when the status call succeeds and reports no conflicts.
\<close>

theorem C7_continue_needs_no_conflicts:
  assumes "statefiles w (RootDir args) = Some (Stored rs)"
      and "UnfinishedDetails rs = Some d"
      and "AskHowToHandleUnfinishedRunState c (Command rs) (EndBranch d) (EndTime d) (CanSkip d)
             = Inr ResponseContinue"
      and "asked = [CallLoad (RootDir args),
                    CallAsk (Command rs) (EndBranch d) (EndTime d) (CanSkip d), CallRepoStatus]"
  shows "HandleUnfinishedState c args w =
           (case Backend_RepoStatus (Run args) of
              Inl err \<Rightarrow> ((False, Some err), w\<lparr>calls := calls w @ asked\<rparr>)
            | Inr repoStatus \<Rightarrow>
                if Conflicts repoStatus
                then ((False, Some ContinueUnresolvedConflicts), w\<lparr>calls := calls w @ asked\<rparr>)
                else ((True, fst (interpreter_Execute c (executeArgs args rs) (statefiles w))),
                      w\<lparr>statefiles :=
                           snd (interpreter_Execute c (executeArgs args rs) (statefiles w)),
                        calls := calls w @ asked @ [CallExecute (executeArgs args rs)]\<rparr>))"
  using assms
  by (cases "Backend_RepoStatus (Run args)")
     (simp_all add: handler_defs response_names continueRunstate_def Execute_def split_beta)

theorem C7_witness:
  "Backend_RepoStatus (Run (sample_args True)) = Inr \<lparr>Conflicts = True, OpenChanges = False\<rparr>
   \<and> HandleUnfinishedState (sample_collaborators ResponseContinue) (sample_args True)
       (sample_world (sample_runstate (Some sample_details))) =
     ((False, Some ContinueUnresolvedConflicts),
      \<lparr>statefiles = [''/repo'' \<mapsto> Stored (sample_runstate (Some sample_details))],
       calls = [CallLoad ''/repo'', CallAsk ''sync'' ''feature'' 7 True, CallRepoStatus]\<rparr>)
   \<and> HandleUnfinishedState (sample_collaborators ResponseContinue) (sample_args False)
       (sample_world (sample_runstate (Some sample_details))) =
     ((True, None),
      \<lparr>statefiles = Map.empty,
       calls = [CallLoad ''/repo'', CallAsk ''sync'' ''feature'' 7 True, CallRepoStatus,
                CallExecute (executeArgs (sample_args False)
                               (sample_runstate (Some sample_details)))]\<rparr>)
   \<and> Backend_RepoStatus (Run sample_args_without_status) = Inl (External ''git status failed'')
   \<and> HandleUnfinishedState (sample_collaborators ResponseContinue) sample_args_without_status
       (sample_world (sample_runstate (Some sample_details))) =
     ((False, Some (External ''git status failed'')),
      \<lparr>statefiles = [''/repo'' \<mapsto> Stored (sample_runstate (Some sample_details))],
       calls = [CallLoad ''/repo'', CallAsk ''sync'' ''feature'' 7 True, CallRepoStatus]\<rparr>)"
  using C7_continue_needs_no_conflicts [of "sample_world (sample_runstate (Some sample_details))"
      "sample_args True" "sample_runstate (Some sample_details)" sample_details
      "sample_collaborators ResponseContinue"
      "[CallLoad ''/repo'', CallAsk ''sync'' ''feature'' 7 True, CallRepoStatus]"]
    C7_continue_needs_no_conflicts [of "sample_world (sample_runstate (Some sample_details))"
      "sample_args False" "sample_runstate (Some sample_details)" sample_details
      "sample_collaborators ResponseContinue"
      "[CallLoad ''/repo'', CallAsk ''sync'' ''feature'' 7 True, CallRepoStatus]"]
    C7_continue_needs_no_conflicts [of "sample_world (sample_runstate (Some sample_details))"
      sample_args_without_status "sample_runstate (Some sample_details)" sample_details
      "sample_collaborators ResponseContinue"
      "[CallLoad ''/repo'', CallAsk ''sync'' ''feature'' 7 True, CallRepoStatus]"]
  by (simp add: sample_defs sample_args_without_status_def executeArgs_def)

text \<open>
  A run-state file that exists but holds a finished state (no unfinished details) does
  not lead to the prompt: the handler returns quit = false and no error after the load
  alone, so the requested workflow goes on while the file exists.
\<close>

theorem C1_counterexample:
  "statefiles (sample_world (sample_runstate None)) (RootDir (sample_args False))
     = Some (Stored (sample_runstate None))
   \<and> HandleUnfinishedState (sample_collaborators ResponseQuit) (sample_args False)
       (sample_world (sample_runstate None)) =
     ((False, None),
      \<lparr>statefiles = [''/repo'' \<mapsto> Stored (sample_runstate None)],
       calls = [CallLoad ''/repo'']\<rparr>)"
  by (simp add: handler_defs sample_defs)

lemma prompt_first:
  assumes "statefiles w (RootDir args) = Some (Stored rs)"
      and "UnfinishedDetails rs = Some d"
  shows "\<exists>rest. calls (snd (HandleUnfinishedState c args w)) =
           calls w @ CallLoad (RootDir args)
             # CallAsk (Command rs) (EndBranch d) (EndTime d) (CanSkip d) # rest"
  using assms
  by (auto simp: handler_defs discardRunstate_def statefile_Delete_def continueRunstate_def
      abortRunstate_def skipRunstate_def Execute_def split_beta Let_def
      split: sum.splits option.splits)

lemma proceed_only_after_discard:
  assumes "statefiles w (RootDir args) = Some (Stored rs)"
      and "UnfinishedDetails rs = Some d"
      and "fst (HandleUnfinishedState c args w) = (False, None)"
  shows "AskHowToHandleUnfinishedRunState c (Command rs) (EndBranch d) (EndTime d) (CanSkip d)
           = Inr ResponseDiscard
         \<and> statefiles (snd (HandleUnfinishedState c args w)) (RootDir args) = None"
  using assms
  by (auto simp: handler_defs discardRunstate_def statefile_Delete_def continueRunstate_def
      abortRunstate_def skipRunstate_def Execute_def split_beta Let_def
      split: sum.splits option.splits if_splits)

lemma finished_state_is_not_prompted:
  assumes "statefiles w (RootDir args) = None
           \<or> (\<exists>rs. statefiles w (RootDir args) = Some (Stored rs) \<and> UnfinishedDetails rs = None)"
  shows "HandleUnfinishedState c args w =
           ((False, None), w\<lparr>calls := calls w @ [CallLoad (RootDir args)]\<rparr>)"
  using assms by (auto simp: handler_defs)

text \<open>
  C1 (amended): whenever the persisted run state of the repository root has unfinished
  details, the first two calls of the handler are the load and the resume prompt, before
  any other call (in particular before the interpreter runs anything); and the handler
  lets the caller go on with its own workflow (quit = false and no error) only when the
  answer was Discard and no file is left for the root.
\<close>

theorem C1_unfinished_state_routes_to_prompt:
  assumes "statefiles w (RootDir args) = Some (Stored rs)"
      and "UnfinishedDetails rs = Some d"
  shows "(\<exists>rest. calls (snd (HandleUnfinishedState c args w)) =
            calls w @ CallLoad (RootDir args)
              # CallAsk (Command rs) (EndBranch d) (EndTime d) (CanSkip d) # rest)
       \<and> (fst (HandleUnfinishedState c args w) = (False, None) \<longrightarrow>
            AskHowToHandleUnfinishedRunState c (Command rs) (EndBranch d) (EndTime d) (CanSkip d)
              = Inr ResponseDiscard
            \<and> statefiles (snd (HandleUnfinishedState c args w)) (RootDir args) = None)"
  using prompt_first [OF assms] proceed_only_after_discard [OF assms] by blast

theorem C1_witness:
  "statefiles (sample_world (sample_runstate (Some sample_details))) (RootDir (sample_args False))
     = Some (Stored (sample_runstate (Some sample_details)))
   \<and> UnfinishedDetails (sample_runstate (Some sample_details)) = Some sample_details
   \<and> (\<exists>rest. calls (snd (HandleUnfinishedState (sample_collaborators ResponseDiscard)
                  (sample_args False) (sample_world (sample_runstate (Some sample_details))))) =
          CallLoad ''/repo'' # CallAsk ''sync'' ''feature'' 7 True # rest)
   \<and> fst (HandleUnfinishedState (sample_collaborators ResponseDiscard)
                  (sample_args False) (sample_world (sample_runstate (Some sample_details))))
       = (False, None)
   \<and> statefiles (snd (HandleUnfinishedState (sample_collaborators ResponseDiscard)
                  (sample_args False) (sample_world (sample_runstate (Some sample_details)))))
         ''/repo'' = None"
proof -
  have files: "statefiles (sample_world (sample_runstate (Some sample_details)))
      (RootDir (sample_args False)) = Some (Stored (sample_runstate (Some sample_details)))"
    by (simp add: sample_defs)
  have details: "UnfinishedDetails (sample_runstate (Some sample_details)) = Some sample_details"
    by (simp add: sample_defs)
  have proceed: "fst (HandleUnfinishedState (sample_collaborators ResponseDiscard)
                  (sample_args False) (sample_world (sample_runstate (Some sample_details))))
       = (False, None)"
    by (simp add: handler_defs sample_defs discardRunstate_def statefile_Delete_def)
  have root: "RootDir (sample_args False) = ''/repo''"
    by (simp add: sample_defs)
  have cmd: "Command (sample_runstate (Some sample_details)) = ''sync''"
      "EndBranch sample_details = ''feature''" "EndTime sample_details = 7"
      "CanSkip sample_details = True"
    by (simp_all add: sample_defs)
  from C1_unfinished_state_routes_to_prompt [OF files details,
      of "sample_collaborators ResponseDiscard"] proceed
  show ?thesis
    unfolding root cmd using files details by (simp add: sample_defs)
qed

subsection \<open>The append command\<close>

lemmas append_defs =
  executeAppend_def determineAppendConfig_def appendProgram_def collect_def Check_def Fail_def

lemmas append_sample_defs =
  sample_append_def sample_repo_def sample_runner_def sample_loaded_def sample_infos_def
  known_ancestry_def parent_then_branch_def sync_marker_def succeed_def sample_config_def

lemmas query_defs =
  HasLocalBranch_def HasMatchingTrackingBranchFor_def TrackingBranch_def HasOrigin_def
  ShouldNewBranchPush_def IsOnline_def

text \<open>
  With open changes in the working tree and the wrap of the spec, the program handed to
  the interpreter starts with a stash and ends with the return to the previous branch and
  the restore: it is not the bare sequence of sync, create, set-parent, checkout and
  create-tracking opcodes.
\<close>

theorem C2_counterexample:
  "handed_program (executeAppend (sample_append True) ''child'' False False) =
     Some ([OpStashOpenChanges] @ bare_sequence
           @ [OpPreserveCheckoutHistory [''feature'', ''main''], OpRestoreOpenChanges])
   \<and> handed_program (executeAppend (sample_append True) ''child'' False False)
       \<noteq> Some bare_sequence"
  by (simp add: handed_program_def append_defs append_sample_defs query_defs Wrap_spec_def
      bare_sequence_def Let_def)

text \<open>
  C2 (amended): for the append workflow on a branch B whose chain of ancestors, root
  first, is A then B, requesting the new branch D hands to the interpreter the wrap
  (\<open>cmdhelpers.Wrap\<close> with the dry-run flag, run-in-git-root, stash iff there are open
  changes, and the previous-branch candidates B and the previously checked-out branch) of
  exactly this sequence: the sync opcodes of A, then those of B, then create-branch D with
  candidates [B, A], set-parent of D with the same candidates, checkout D, followed by
  create-tracking-branch D if and only if origin is among the remotes, new branches are
  pushed and the run is online.
\<close>

theorem C2_append_program_is_wrapped:
  assumes "OpenRepo c = Inr repo"
      and "LoadBranches c repo = (loaded, snapshot, stash, False, None)"
      and "Backend_Remotes (Runner repo) = Inr rems"
      and "Backend_RepoStatus (Runner repo) = Inr status"
      and "\<not> HasLocalBranch (Branches_All loaded) D"
      and "\<not> HasMatchingTrackingBranchFor (Branches_All loaded) D"
      and "Branches_Initial loaded = B"
      and "EnsureKnownBranchAncestry c B (RunnerFullConfig (Runner repo)) (Branches_All loaded)
             (Branches_Types loaded) (MainBranch (RunnerFullConfig (Runner repo)))
             = Inr (types, lineage)"
      and "BranchAndAncestors c lineage B = [A, B]"
      and "find (\<lambda>bi. LocalName bi = A) (Branches_All loaded) = Some infoA"
      and "find (\<lambda>bi. LocalName bi = B) (Branches_All loaded) = Some infoB"
      and "fullConfig = (RunnerFullConfig (Runner repo))\<lparr>ConfigLineage := lineage\<rparr>"
      and "syncArgs = \<lparr> bp_FullConfig = fullConfig, bp_BranchInfos = Branches_All loaded,
                         bp_BranchTypes = types, bp_Remotes = rems, bp_PushBranch = True \<rparr>"
  shows "\<exists>ea. executeAppend c D dry verbose = (append_Execute c ea, Some ea)
           \<and> RunProgram (ea_RunState ea) =
               Wrap c (BranchProgram c infoA syncArgs @ BranchProgram c infoB syncArgs
                       @ [OpCreateBranchExistingParent [B, A] D,
                          OpSetExistingParent D [B, A],
                          OpCheckout D]
                       @ (if HasOrigin rems \<and> ShouldNewBranchPush fullConfig \<and> IsOnline fullConfig
                          then [OpCreateTrackingBranch \<lparr>Branch = D\<rparr>] else []))
                 \<lparr> wo_DryRun = dry, wo_RunInGitRoot = True,
                   wo_StashOpenChanges = OpenChanges status,
                   wo_PreviousBranchCandidates =
                     [B, Backend_PreviouslyCheckedOutBranch (Runner repo)] \<rparr>"
  using assms
  by (simp add: append_defs Let_def)

theorem C2_witness:
  "OpenRepo (sample_append False) = Inr (sample_repo False)
   \<and> BranchAndAncestors (sample_append False) [''feature'' \<mapsto> ''main''] ''feature''
       = [''main'', ''feature'']
   \<and> (\<exists>ea. executeAppend (sample_append False) ''child'' False False = (None, Some ea)
          \<and> RunProgram (ea_RunState ea) =
              bare_sequence @ [OpPreserveCheckoutHistory [''feature'', ''main'']])"
  using C2_append_program_is_wrapped [where c = "sample_append False"
      and repo = "sample_repo False"
      and loaded = "\<lparr>Branches_All = sample_infos, Branches_Types = [''main''],
                      Branches_Initial = ''feature''\<rparr>"
      and snapshot = "\<lparr>Branches = sample_infos, Active = ''feature''\<rparr>"
      and stash = 0 and rems = "[''origin'']"
      and status = "\<lparr>Conflicts = False, OpenChanges = False\<rparr>"
      and D = "''child''" and B = "''feature''" and A = "''main''"
      and types = "[''main'']" and lineage = "[''feature'' \<mapsto> ''main'']"
      and infoA = "\<lparr>LocalName = ''main'', RemoteName = ''origin/main''\<rparr>"
      and infoB = "\<lparr>LocalName = ''feature'', RemoteName = ''origin/feature''\<rparr>"
      and fullConfig = sample_config
      and syncArgs = "\<lparr> bp_FullConfig = sample_config, bp_BranchInfos = sample_infos,
                         bp_BranchTypes = [''main''], bp_Remotes = [''origin''],
                         bp_PushBranch = True \<rparr>"
      and dry = False and verbose = False]
  by (simp add: append_sample_defs query_defs Wrap_spec_def bare_sequence_def)

subsection \<open>The ship command\<close>


lemmas ship_sample_defs =
  sample_ship_repo_def no_parent_question_def sync_step_def wrap_nothing_def run_all_def
  is_main_def parent_of_def always_def








text \<open>
  C10: in the eligibility check of the ship workflow, for a branch whose parent is neither
  the main branch nor a perennial branch, the check takes \<open>ancestors[1:]\<close> and reads its
  element 0. With at least two ancestors this is in bounds and the check ends the command
  with the error that names the oldest ancestor to ship first. With fewer than two
  ancestors the run panics out of range: at the index for one ancestor, already at the
  slice expression for none. For every other branch the check returns.
\<close>

theorem C10_ancestors_need_two_entries:
  "ensureParentBranchIsMainOrPerennialBranch branch repo =
     (if \<not> Config_IsMainBranch repo (Config_ParentBranch repo branch)
         \<and> \<not> Config_IsPerennialBranch repo (Config_ParentBranch repo branch)
      then (if 2 \<le> length (Config_AncestorBranches repo branch)
            then Exit (ShipOldestAncestorFirst
                         (Join (drop 1 (Config_AncestorBranches repo branch)) '', '')
                         (Config_AncestorBranches repo branch ! 1))
            else if length (Config_AncestorBranches repo branch) = 1
                 then Panic (IndexOutOfRange 0 0)
                 else Panic (SliceBoundsOutOfRange 1 0))
      else Done ())"
proof (cases "Config_AncestorBranches repo branch")
  case Nil
  then show ?thesis
    by (simp add: ensureParentBranchIsMainOrPerennialBranch_def)
next
  case (Cons main older)
  then show ?thesis
    by (cases older) (simp_all add: ensureParentBranchIsMainOrPerennialBranch_def Let_def)
qed

theorem C10_witness:
  "\<not> Config_IsMainBranch (sample_ship_repo ''child'' True [''main'', ''feature''])
        (Config_ParentBranch (sample_ship_repo ''child'' True [''main'', ''feature'']) ''child'')
   \<and> ensureParentBranchIsMainOrPerennialBranch ''child''
         (sample_ship_repo ''child'' True [''main'', ''feature''])
       = Exit (ShipOldestAncestorFirst ''feature'' ''feature'')
   \<and> ensureParentBranchIsMainOrPerennialBranch ''child''
         (sample_ship_repo ''child'' True [''feature''])
       = Panic (IndexOutOfRange 0 0)
   \<and> ensureParentBranchIsMainOrPerennialBranch ''child''
         (sample_ship_repo ''child'' True [])
       = Panic (SliceBoundsOutOfRange 1 0)
   \<and> ensureParentBranchIsMainOrPerennialBranch ''feature''
         (sample_ship_repo ''feature'' True [''main''])
       = Done ()"
  using C10_ancestors_need_two_entries [of "''child''"
          "sample_ship_repo ''child'' True [''main'', ''feature'']"]
        C10_ancestors_need_two_entries [of "''child''"
          "sample_ship_repo ''child'' True [''feature'']"]
        C10_ancestors_need_two_entries [of "''child''" "sample_ship_repo ''child'' True []"]
        C10_ancestors_need_two_entries [of "''feature''"
          "sample_ship_repo ''feature'' True [''main'']"]
  by (simp add: ship_sample_defs)






subsection \<open>Validation errors of append and ship\<close>




end
